theory Spec2Isabelle
  imports Main "HOL-Library.AList"
begin

section \<open>AuthService: data model\<close>

text \<open>
  The class \<^verbatim>\<open>AuthService\<close> is embedded with explicit state passing: an operation
  takes the world and returns what it throws or returns, with the world afterwards.
  Its three collaborators are libraries, not code of the repository:
  \<^item> the Mongoose model \<^verbatim>\<open>usersRepository\<close> is an in-memory list of documents, in
    insertion order, with a list of pending rejections for the calls made to it;
  \<^item> \<^verbatim>\<open>JwtService\<close> and \<^verbatim>\<open>bcrypt\<close> are parameters, gathered in the record \<open>env\<close>.
  Everything the JavaScript draws from outside (the clock read by \<^verbatim>\<open>sign\<close> and
  \<^verbatim>\<open>verify\<close>, the salt drawn by \<^verbatim>\<open>hashSync\<close>, the \<^verbatim>\<open>_id\<close> generated by
  \<^verbatim>\<open>create\<close>) is an explicit argument.
\<close>

subsection \<open>Requests, documents, responses\<close>

text \<open>
  Modelled from the spec: the declaration of \<^verbatim>\<open>LoginUserDto\<close> is not among the
  sources. It has the two fields \<^verbatim>\<open>loginUser\<close> destructures, the arguments of
  \<^verbatim>\<open>loginUser(email, password)\<close>.
\<close>

record loginUserDto =
  email :: string
  password :: string

text \<open>
  Modelled from the spec: the declaration of \<^verbatim>\<open>RegisterUserDto\<close> is not among the
  sources. \<^verbatim>\<open>registerUser\<close> destructures \<^verbatim>\<open>email\<close> and \<^verbatim>\<open>password\<close>, reads
  \<^verbatim>\<open>username\<close> back from the created document and spreads the whole object into
  \<^verbatim>\<open>create\<close>; \<open>profile\<close> holds the remaining fields, the \<^verbatim>\<open>...profile\<close> of
  \<^verbatim>\<open>registerUser(email, password, ...profile)\<close>.
\<close>

record registerUserDto = loginUserDto +
  username :: string
  profile :: "(string \<times> string) list"

text \<open>
  Modelled from the spec: the entity \<^verbatim>\<open>User\<close> is not among the sources. A document has
  the attributes of the data model: the id generated by the store (\<^verbatim>\<open>_id\<close>, here
  \<open>uid\<close>), email, username, password, and arbitrary profile fields; \<^verbatim>\<open>toObject()\<close> is
  the document with all of them.
\<close>

record user = registerUserDto +
  uid :: string

text \<open>
  \<^verbatim>\<open>ChangePasswordDto\<close> (\<^verbatim>\<open>change_password.dto.ts\<close>), fields in the order
  \<^verbatim>\<open>token\<close>, \<^verbatim>\<open>password\<close>, \<^verbatim>\<open>newPassword\<close>, \<^verbatim>\<open>repeatNewPassword\<close>.
\<close>

datatype changePasswordDto = ChangePasswordDto string string string string

text \<open>
  Modelled from the spec: the declaration of \<^verbatim>\<open>UpdateUserDto\<close> is not among the
  sources; the specification describes the request as \<^verbatim>\<open>updateUser(id, ...fields)\<close>,
  a partial update of arbitrary fields. The request is its \<^verbatim>\<open>id\<close> and the submitted
  fields, by name.
\<close>

datatype updateUserDto = UpdateUserDto string "(string \<times> string) list"

text \<open>A decoded token or a payload to sign: a JavaScript object, as its list of properties.\<close>

type_synonym payload = "(string \<times> string) list"

text \<open>
  The object literal \<^verbatim>\<open>{ id, email, username }\<close> that \<^verbatim>\<open>registerUser\<close> and
  \<^verbatim>\<open>loginUser\<close> pass to \<^verbatim>\<open>signJWT\<close>.
\<close>

definition JwtPayload :: "string \<Rightarrow> string \<Rightarrow> string \<Rightarrow> payload" where
  "JwtPayload i e u = [(''id'', i), (''email'', e), (''username'', u)]"

text \<open>
  What an operation throws: an \<^verbatim>\<open>RpcException\<close> built from \<^verbatim>\<open>{ status, message }\<close>, or
  any other error raised by a collaborator, of which only \<^verbatim>\<open>.message\<close> is read.
\<close>

datatype exn = RpcException nat string | Error string

fun message :: "exn \<Rightarrow> string" where
  "message (RpcException st m) = m"
| "message (Error m) = m"

text \<open>
  The response objects, fields in the order of the source's object literals:
  \<^verbatim>\<open>{ data, token, message }\<close>, \<^verbatim>\<open>{ user, token, message }\<close>, \<^verbatim>\<open>{ user, token, message }\<close>,
  \<^verbatim>\<open>{ data, message }\<close>, \<^verbatim>\<open>{ data, message }\<close>.
\<close>

datatype response =
    RegisterUserResponse user string string
  | LoginUserResponse user string string
  | VerifyUserResponse payload string string
  | ChangePasswordResponse "user option" string
  | UpdateUserResponse updateUserDto string

subsection \<open>The world an operation runs in\<close>

text \<open>
  \<open>docs\<close> are the stored documents; \<open>faults\<close> says, for the store calls to come, which
  ones reject, with the message of the error (the store is unreachable, a value cannot
  be cast, an index is violated), and which go through, and past its end every call
  goes through; \<open>logger\<close> is what \<^verbatim>\<open>this.logger.error\<close> has received.
\<close>

record world =
  docs :: "user list"
  faults :: "string option list"
  logger :: "exn list"

type_synonym 'a io = "world \<Rightarrow> (exn + 'a) \<times> world"

text \<open>
  The collaborators. \<open>jwt_verify\<close> takes the \<^verbatim>\<open>secret\<close> option of the call when there
  is one, and returns the message of the error it throws or the decoded object;
  \<open>bcrypt_hashSync\<close> takes the password, the number of rounds and the salt it draws.
\<close>

record env =
  jwtSecret :: string
  jwt_sign :: "nat \<Rightarrow> payload \<Rightarrow> string"
  jwt_verify :: "string option \<Rightarrow> nat \<Rightarrow> string \<Rightarrow> string + payload"
  bcrypt_hashSync :: "string \<Rightarrow> nat \<Rightarrow> string \<Rightarrow> string"
  bcrypt_compareSync :: "string \<Rightarrow> string \<Rightarrow> bool"

section \<open>The user store\<close>

text \<open>
  The filters the service builds: \<^verbatim>\<open>{ email }\<close>, \<^verbatim>\<open>{ username: decoded.username }\<close>
  (the property may be missing from the decoded object) and \<^verbatim>\<open>{ _id: id }\<close>. An
  \<^verbatim>\<open>ObjectId\<close> given in place of a filter, as \<^verbatim>\<open>changePassword\<close> does, is a filter
  on \<^verbatim>\<open>_id\<close>.
\<close>

datatype filter = ByEmail string | ByUsername "string option" | ById string

fun matches :: "filter \<Rightarrow> user \<Rightarrow> bool" where
  "matches (ByEmail e) u = (email u = e)"
| "matches (ByUsername None) u = False"
| "matches (ByUsername (Some n)) u = (username u = n)"
| "matches (ById i) u = (uid u = i)"

text \<open>Every call to the store first learns whether it is rejected.\<close>

definition storeCall :: "world \<Rightarrow> string option \<times> world" where
  "storeCall w =
     (case faults w of
        [] \<Rightarrow> (None, w)
      | f # fs \<Rightarrow> (f, w\<lparr>faults := fs\<rparr>))"

definition findOne :: "filter \<Rightarrow> user option io" where
  "findOne flt w =
     (case storeCall w of
        (Some m, w') \<Rightarrow> (Inl (Error m), w')
      | (None, w') \<Rightarrow> (Inr (find (matches flt) (docs w')), w'))"

text \<open>\<^verbatim>\<open>create\<close> appends the document under the generated \<^verbatim>\<open>_id\<close> and returns it.\<close>

definition create :: "string \<Rightarrow> registerUserDto \<Rightarrow> user io" where
  "create oid d w =
     (case storeCall w of
        (Some m, w') \<Rightarrow> (Inl (Error m), w')
      | (None, w') \<Rightarrow>
          (let newUser = \<lparr>email = email d, password = password d, username = username d,
                          profile = profile d, uid = oid\<rparr>
           in (Inr newUser, w'\<lparr>docs := docs w' @ [newUser]\<rparr>)))"

text \<open>Setting one field of a document; a name that is not a column is a profile field.\<close>

definition setField :: "string \<times> string \<Rightarrow> user \<Rightarrow> user" where
  "setField kv u =
     (if fst kv = ''email'' then u\<lparr>email := snd kv\<rparr>
      else if fst kv = ''username'' then u\<lparr>username := snd kv\<rparr>
      else if fst kv = ''password'' then u\<lparr>password := snd kv\<rparr>
      else u\<lparr>profile := AList.update (fst kv) (snd kv) (profile u)\<rparr>)"

definition applyUpdate :: "(string \<times> string) list \<Rightarrow> user \<Rightarrow> user" where
  "applyUpdate upd u = fold setField upd u"

fun updateFirst :: "(user \<Rightarrow> bool) \<Rightarrow> (user \<Rightarrow> user) \<Rightarrow> user list \<Rightarrow> user list" where
  "updateFirst P f [] = []"
| "updateFirst P f (u # us) = (if P u then f u # us else u # updateFirst P f us)"

text \<open>
  \<^verbatim>\<open>findOneAndUpdate(filter, update)\<close> with no options: the first matching document is
  updated in the store, and the call resolves to that document as it was before the
  update (Mongoose's default, \<^verbatim>\<open>new: false\<close>), or to \<^verbatim>\<open>null\<close> when nothing matches.
\<close>

definition findOneAndUpdate :: "filter \<Rightarrow> (string \<times> string) list \<Rightarrow> user option io" where
  "findOneAndUpdate flt upd w =
     (case storeCall w of
        (Some m, w') \<Rightarrow> (Inl (Error m), w')
      | (None, w') \<Rightarrow>
          (Inr (find (matches flt) (docs w')),
           w'\<lparr>docs := updateFirst (matches flt) (applyUpdate upd) (docs w')\<rparr>))"

section \<open>AuthService: operations\<close>

text \<open>
  The \<^verbatim>\<open>catch\<close> clause shared by the first four operations:
  \<^verbatim>\<open>this.logger.error(error); throw new RpcException({ status: 400, message: error.message })\<close>.
\<close>

definition catchRethrow :: "'a io \<Rightarrow> 'a io" where
  "catchRethrow body w =
     (case body w of
        (Inl e, w') \<Rightarrow> (Inl (RpcException 400 (message e)), w'\<lparr>logger := logger w' @ [e]\<rparr>)
      | (Inr r, w') \<Rightarrow> (Inr r, w'))"

definition signJWT :: "env \<Rightarrow> nat \<Rightarrow> payload \<Rightarrow> string" where
  "signJWT ev now p = jwt_sign ev now p"

text \<open>The \<^verbatim>\<open>try\<close> block of \<^verbatim>\<open>registerUser\<close>.\<close>

definition registerUser_try ::
  "env \<Rightarrow> nat \<Rightarrow> string \<Rightarrow> string \<Rightarrow> registerUserDto \<Rightarrow> response io" where
  "registerUser_try ev now salt oid dto w =
     (case findOne (ByEmail (email dto)) w of
        (Inl e, w1) \<Rightarrow> (Inl e, w1)
      | (Inr (Some u), w1) \<Rightarrow> (Inl (RpcException 400 ''User already exists''), w1)
      | (Inr None, w1) \<Rightarrow>
          (case create oid (dto\<lparr>password := bcrypt_hashSync ev (password dto) 10 salt\<rparr>) w1 of
             (Inl e, w2) \<Rightarrow> (Inl e, w2)
           | (Inr newUser, w2) \<Rightarrow>
               (Inr (RegisterUserResponse newUser
                       (signJWT ev now (JwtPayload (uid newUser) (email newUser) (username newUser)))
                       ''The user was created successfully''), w2)))"

definition registerUser ::
  "env \<Rightarrow> nat \<Rightarrow> string \<Rightarrow> string \<Rightarrow> registerUserDto \<Rightarrow> response io" where
  "registerUser ev now salt oid dto = catchRethrow (registerUser_try ev now salt oid dto)"

text \<open>The \<^verbatim>\<open>try\<close> block of \<^verbatim>\<open>loginUser\<close>.\<close>

definition loginUser_try :: "env \<Rightarrow> nat \<Rightarrow> loginUserDto \<Rightarrow> response io" where
  "loginUser_try ev now dto w =
     (case findOne (ByEmail (email dto)) w of
        (Inl e, w1) \<Rightarrow> (Inl e, w1)
      | (Inr None, w1) \<Rightarrow> (Inl (RpcException 400 ''User/Password not valid''), w1)
      | (Inr (Some u), w1) \<Rightarrow>
          (if \<not> bcrypt_compareSync ev (password dto) (password u)
           then (Inl (RpcException 400 ''User/Password not valid''), w1)
           else (Inr (LoginUserResponse u
                        (signJWT ev now (JwtPayload (uid u) (email u) (username u)))
                        ''The user logged in correctly''), w1)))"

definition loginUser :: "env \<Rightarrow> nat \<Rightarrow> loginUserDto \<Rightarrow> response io" where
  "loginUser ev now dto = catchRethrow (loginUser_try ev now dto)"

text \<open>
  \<^verbatim>\<open>const { sub, iat, exp, ...data } = ...\<close>: the decoded object without those three
  properties.
\<close>

definition stripClaims :: "payload \<Rightarrow> payload" where
  "stripClaims c = filter (\<lambda>kv. fst kv \<notin> {''sub'', ''iat'', ''exp''}) c"

definition verifyUser_try :: "env \<Rightarrow> nat \<Rightarrow> string \<Rightarrow> response io" where
  "verifyUser_try ev now token w =
     (case jwt_verify ev (Some (jwtSecret ev)) now token of
        Inl m \<Rightarrow> (Inl (Error m), w)
      | Inr c \<Rightarrow>
          (let data = stripClaims c
           in (Inr (VerifyUserResponse data (signJWT ev now data) ''Successfully verified user''), w)))"

definition verifyUser :: "env \<Rightarrow> nat \<Rightarrow> string \<Rightarrow> response io" where
  "verifyUser ev now token = catchRethrow (verifyUser_try ev now token)"

text \<open>
  The \<^verbatim>\<open>try\<close> block of \<^verbatim>\<open>changePassword\<close>. The token is verified with the secret the
  service was configured with (no \<^verbatim>\<open>secret\<close> option).
\<close>

fun changePassword_try :: "env \<Rightarrow> nat \<Rightarrow> string \<Rightarrow> changePasswordDto \<Rightarrow> response io" where
  "changePassword_try ev now salt (ChangePasswordDto token pw newPassword repeatNewPassword) w =
     (case jwt_verify ev None now token of
        Inl m \<Rightarrow> (Inl (Error m), w)
      | Inr decoded \<Rightarrow>
          (case findOne (ByUsername (map_of decoded ''username'')) w of
             (Inl e, w1) \<Rightarrow> (Inl e, w1)
           | (Inr None, w1) \<Rightarrow> (Inl (RpcException 400 ''User not valid''), w1)
           | (Inr (Some u), w1) \<Rightarrow>
               (if \<not> bcrypt_compareSync ev pw (password u)
                then (Inl (RpcException 400 ''Password not valid''), w1)
                else
                  (case findOneAndUpdate (ById (uid u))
                          [(''password'', bcrypt_hashSync ev newPassword 10 salt)] w1 of
                     (Inl e, w2) \<Rightarrow> (Inl e, w2)
                   | (Inr updatePassword, w2) \<Rightarrow>
                       (Inr (ChangePasswordResponse updatePassword
                               ''Password changed successfully''), w2)))))"

definition changePassword :: "env \<Rightarrow> nat \<Rightarrow> string \<Rightarrow> changePasswordDto \<Rightarrow> response io" where
  "changePassword ev now salt dto = catchRethrow (changePassword_try ev now salt dto)"

text \<open>
  \<^verbatim>\<open>updateUser\<close> has no \<^verbatim>\<open>try\<close>: what the store throws leaves the operation as it is,
  and nothing is logged. The \<^verbatim>\<open>id\<close> of the request is not a column of the document,
  so the update sets the submitted fields.
\<close>

fun updateUser :: "updateUserDto \<Rightarrow> response io" where
  "updateUser (UpdateUserDto i flds) w =
     (case findOneAndUpdate (ById i) flds w of
        (Inl e, w1) \<Rightarrow> (Inl e, w1)
      | (Inr None, w1) \<Rightarrow>
          (Inl (RpcException 400 ''User's information could not be updated''), w1)
      | (Inr (Some u), w1) \<Rightarrow>
          (Inr (UpdateUserResponse (UpdateUserDto i flds)
                  ''User information updated correctly''), w1))"

section \<open>In-memory collaborators\<close>

text \<open>
  A token service and a hasher small enough to run, to exercise the theorems below on
  concrete requests. The hasher keeps the salt in the hash, as bcrypt does; the token
  service signs by prefixing the secret and adds the claim \<^verbatim>\<open>iat\<close>.
\<close>

definition fake_hashSync :: "string \<Rightarrow> nat \<Rightarrow> string \<Rightarrow> string" where
  "fake_hashSync pw rounds salt = ''$2b$'' @ salt @ ''$'' @ rev pw"

definition fake_compareSync :: "string \<Rightarrow> string \<Rightarrow> bool" where
  "fake_compareSync pw h = (dropWhile (\<lambda>c. c \<noteq> CHR ''$'') (drop 4 h) = CHR ''$'' # rev pw)"

definition fake_encode :: "payload \<Rightarrow> string" where
  "fake_encode p = concat (map (\<lambda>kv. fst kv @ ''='' @ snd kv @ '';'') p)"

fun fake_decode :: "nat \<Rightarrow> string \<Rightarrow> payload" where
  "fake_decode 0 s = []"
| "fake_decode (Suc n) s =
     (if s = [] then []
      else (takeWhile (\<lambda>c. c \<noteq> CHR ''='') s,
            takeWhile (\<lambda>c. c \<noteq> CHR '';'') (drop 1 (dropWhile (\<lambda>c. c \<noteq> CHR ''='') s)))
           # fake_decode n (drop 1 (dropWhile (\<lambda>c. c \<noteq> CHR '';'') s)))"

definition fake_sign :: "string \<Rightarrow> nat \<Rightarrow> payload \<Rightarrow> string" where
  "fake_sign secret now p = secret @ ''.'' @ fake_encode (p @ [(''iat'', replicate now CHR ''I'')])"

definition fake_verify :: "string \<Rightarrow> string option \<Rightarrow> nat \<Rightarrow> string \<Rightarrow> string + payload" where
  "fake_verify secret opt now token =
     (let key = (case opt of None \<Rightarrow> secret | Some s \<Rightarrow> s) @ ''.''
      in if take (length key) token = key
         then Inr (fake_decode (length token) (drop (length key) token))
         else Inl ''invalid signature'')"

definition fake_env :: env where
  "fake_env = \<lparr>jwtSecret = ''k'', jwt_sign = fake_sign ''k'', jwt_verify = fake_verify ''k'',
               bcrypt_hashSync = fake_hashSync, bcrypt_compareSync = fake_compareSync\<rparr>"

definition world0 :: world where
  "world0 = \<lparr>docs = [], faults = [], logger = []\<rparr>"

definition dto0 :: registerUserDto where
  "dto0 = \<lparr>email = ''a@x.com'', password = ''Secret123!'', username = ''ann'', profile = []\<rparr>"

text \<open>The document that registering \<open>dto0\<close> under the salt \<^verbatim>\<open>s1\<close> creates, and the store holding it.\<close>

definition ann :: user where
  "ann = \<lparr>email = ''a@x.com'', password = ''$2b$s1$!321terceS'', username = ''ann'',
          profile = [], uid = ''u1''\<rparr>"

definition world1 :: world where
  "world1 = \<lparr>docs = [ann], faults = [], logger = []\<rparr>"

text \<open>Tokens signed for \<open>ann\<close> and for a user the store does not hold.\<close>

definition annToken :: string where
  "annToken = fake_sign ''k'' 2 (JwtPayload ''u1'' ''a@x.com'' ''ann'')"

definition bobToken :: string where
  "bobToken = fake_sign ''k'' 2 (JwtPayload ''u7'' ''b@x.com'' ''bob'')"

text \<open>
  The store after the password of \<open>ann\<close> has been changed to \<^verbatim>\<open>Hunter2!\<close> under the salt
  \<^verbatim>\<open>s2\<close>.
\<close>

definition world3 :: world where
  "world3 = \<lparr>docs = [ann\<lparr>password := ''$2b$s2$!2retnuH''\<rparr>], faults = [], logger = []\<rparr>"

section \<open>The store when it answers\<close>

lemma storeCall_up: "faults w = [] \<Longrightarrow> storeCall w = (None, w)"
  by (simp add: storeCall_def)

lemma findOne_up: "faults w = [] \<Longrightarrow> findOne flt w = (Inr (find (matches flt) (docs w)), w)"
  by (simp add: findOne_def storeCall_up)

lemma create_up:
  "faults w = [] \<Longrightarrow>
   create oid d w =
     (Inr \<lparr>email = email d, password = password d, username = username d,
           profile = profile d, uid = oid\<rparr>,
      w\<lparr>docs := docs w @ [\<lparr>email = email d, password = password d, username = username d,
                            profile = profile d, uid = oid\<rparr>]\<rparr>)"
  by (simp add: create_def storeCall_up Let_def)

lemma findOneAndUpdate_up:
  "faults w = [] \<Longrightarrow>
   findOneAndUpdate flt upd w =
     (Inr (find (matches flt) (docs w)),
      w\<lparr>docs := updateFirst (matches flt) (applyUpdate upd) (docs w)\<rparr>)"
  by (simp add: findOneAndUpdate_def storeCall_up)

lemma find_email_Some:
  "\<exists>u \<in> set us. email u = e \<Longrightarrow> \<exists>u. find (matches (ByEmail e)) us = Some u"
  by (cases "find (matches (ByEmail e)) us") (auto simp: find_None_iff)

text \<open>Whatever the store answers, a call leaves the log alone and writes only what it is for.\<close>

lemma storeCall_keeps: "storeCall w = (f, w') \<Longrightarrow> docs w' = docs w \<and> logger w' = logger w"
  by (auto simp: storeCall_def split: list.splits)

lemma findOne_keeps: "findOne flt w = (r, w') \<Longrightarrow> docs w' = docs w \<and> logger w' = logger w"
  by (auto simp: findOne_def split: prod.splits option.splits dest: storeCall_keeps)

lemma create_keeps:
  "create oid d w = (r, w') \<Longrightarrow>
   logger w' = logger w \<and>
   (docs w' = docs w \<or>
    docs w' = docs w @ [\<lparr>email = email d, password = password d, username = username d,
                          profile = profile d, uid = oid\<rparr>])"
  by (auto simp: create_def Let_def split: prod.splits option.splits dest: storeCall_keeps)

lemma findOneAndUpdate_keeps:
  "findOneAndUpdate flt upd w = (r, w') \<Longrightarrow>
   logger w' = logger w \<and>
   (docs w' = docs w \<or> docs w' = updateFirst (matches flt) (applyUpdate upd) (docs w))"
  by (auto simp: findOneAndUpdate_def split: prod.splits option.splits dest: storeCall_keeps)

text \<open>Lookups and updates on the list of documents.\<close>

lemma find_in_set: "find P us = Some u \<Longrightarrow> u \<in> set us \<and> P u"
  by (induction us) (auto split: if_splits)

lemma find_by_uid:
  "distinct (map uid us) \<Longrightarrow> u \<in> set us \<Longrightarrow> find (matches (ById (uid u))) us = Some u"
  by (induction us) (auto split: if_splits)

lemma updateFirst_no_match: "find P us = None \<Longrightarrow> updateFirst P f us = us"
  by (induction us) (auto split: if_splits)

lemma find_updateFirst:
  "find P us = Some u \<Longrightarrow> P (f u) \<Longrightarrow> find P (updateFirst P f us) = Some (f u)"
  by (induction us) (auto split: if_splits)

lemma find_email_after_update:
  "distinct (map uid us) \<Longrightarrow> distinct (map email us) \<Longrightarrow> u \<in> set us \<Longrightarrow>
   email (f u) = email u \<Longrightarrow>
   find (matches (ByEmail (email u))) (updateFirst (matches (ById (uid u))) f us) = Some (f u)"
proof (induction us)
  case Nil
  then show ?case by simp
next
  case (Cons v us)
  show ?case
  proof (cases "uid v = uid u")
    case True
    with Cons.prems have "v = u" by (auto simp: image_iff)
    with Cons.prems show ?thesis by simp
  next
    case False
    with Cons.prems have "u \<in> set us" and "email v \<noteq> email u"
      by (auto simp: image_iff)
    with Cons False show ?thesis by simp
  qed
qed

lemma updateFirst_pred:
  "\<forall>u \<in> set us. Q u \<Longrightarrow> \<forall>u \<in> set us. Q (f u) \<Longrightarrow> \<forall>u \<in> set (updateFirst P f us). Q u"
  by (induction us) auto

lemma uid_setField: "uid (setField kv u) = uid u"
  by (simp add: setField_def)

lemma uid_applyUpdate: "uid (applyUpdate upd u) = uid u"
  unfolding applyUpdate_def by (induction upd arbitrary: u) (simp_all add: uid_setField)

lemma applyUpdate_password: "applyUpdate [(''password'', h)] u = u\<lparr>password := h\<rparr>"
  by (simp add: applyUpdate_def setField_def)

lemma find_other_uid:
  "j \<noteq> i \<Longrightarrow> (\<And>u. uid (f u) = uid u) \<Longrightarrow>
   find (matches (ById j)) (updateFirst (matches (ById i)) f us) = find (matches (ById j)) us"
  by (induction us) auto

text \<open>
  What an update leaves in each field: the value submitted last under its name, or the
  value the document had.
\<close>

lemma applyUpdate_snoc: "applyUpdate (flds @ [kv]) u = setField kv (applyUpdate flds u)"
  by (simp add: applyUpdate_def)

lemma applyUpdate_email:
  "email (applyUpdate flds u) = (case map_of (rev flds) ''email'' of None \<Rightarrow> email u | Some v \<Rightarrow> v)"
proof (induction flds rule: rev_induct)
  case Nil
  then show ?case by (simp add: applyUpdate_def)
next
  case (snoc kv flds)
  then show ?case
    by (cases kv) (simp add: applyUpdate_snoc setField_def)
qed

lemma applyUpdate_username:
  "username (applyUpdate flds u) =
     (case map_of (rev flds) ''username'' of None \<Rightarrow> username u | Some v \<Rightarrow> v)"
proof (induction flds rule: rev_induct)
  case Nil
  then show ?case by (simp add: applyUpdate_def)
next
  case (snoc kv flds)
  then show ?case
    by (cases kv) (simp add: applyUpdate_snoc setField_def)
qed

lemma applyUpdate_password_field:
  "password (applyUpdate flds u) =
     (case map_of (rev flds) ''password'' of None \<Rightarrow> password u | Some v \<Rightarrow> v)"
proof (induction flds rule: rev_induct)
  case Nil
  then show ?case by (simp add: applyUpdate_def)
next
  case (snoc kv flds)
  then show ?case
    by (cases kv) (simp add: applyUpdate_snoc setField_def)
qed

lemma applyUpdate_profile:
  assumes "k \<notin> {''email'', ''username'', ''password''}"
  shows "map_of (profile (applyUpdate flds u)) k =
           (case map_of (rev flds) k of None \<Rightarrow> map_of (profile u) k | Some v \<Rightarrow> Some v)"
proof (induction flds rule: rev_induct)
  case Nil
  then show ?case by (simp add: applyUpdate_def)
next
  case (snoc kv flds)
  with assms show ?case
    by (cases kv) (auto simp: applyUpdate_snoc setField_def update_conv')
qed

text \<open>The \<^verbatim>\<open>catch\<close> clause, read backwards from its result.\<close>

lemma catchRethrow_Inl:
  "catchRethrow body w = (Inl e, w') \<Longrightarrow>
   \<exists>e0 w0. body w = (Inl e0, w0) \<and> e = RpcException 400 (message e0)
          \<and> w' = w0\<lparr>logger := logger w0 @ [e0]\<rparr>"
  by (auto simp: catchRethrow_def split: prod.splits sum.splits)

lemma catchRethrow_docs: "catchRethrow body w = (r, w') \<Longrightarrow> \<exists>r0 w0. body w = (r0, w0) \<and> docs w' = docs w0"
  by (auto simp: catchRethrow_def split: prod.splits sum.splits)

section \<open>Registration\<close>

text \<open>
  C2. Whenever the store holds a user with the email of the request (and answers the
  lookup), \<open>registerUser\<close> throws the \<^verbatim>\<open>RpcException\<close> with status 400 and message
  \<^verbatim>\<open>User already exists\<close>; the error is logged and the documents of the store are what
  they were.
\<close>

theorem registerUser_AlreadyExists:
  assumes "faults w = []" and "\<exists>u \<in> set (docs w). email u = email dto"
  shows "registerUser ev now salt oid dto w =
           (Inl (RpcException 400 ''User already exists''),
            w\<lparr>logger := logger w @ [RpcException 400 ''User already exists'']\<rparr>)
         \<and> docs (snd (registerUser ev now salt oid dto w)) = docs w"
proof -
  from assms(2) obtain u where "find (matches (ByEmail (email dto))) (docs w) = Some u"
    using find_email_Some by blast
  with assms(1) have "registerUser_try ev now salt oid dto w =
      (Inl (RpcException 400 ''User already exists''), w)"
    by (simp add: registerUser_try_def findOne_up)
  then show ?thesis
    by (simp add: registerUser_def catchRethrow_def)
qed

theorem registerUser_AlreadyExists_witness:
  "faults world1 = [] \<and> (\<exists>u \<in> set (docs world1). email u = email dto0)
   \<and> registerUser fake_env 5 ''s2'' ''u2'' dto0 world1 =
       (Inl (RpcException 400 ''User already exists''),
        world1\<lparr>logger := [RpcException 400 ''User already exists'']\<rparr>)
   \<and> docs (snd (registerUser fake_env 5 ''s2'' ''u2'' dto0 world1)) = [ann]"
proof -
  have h1: "faults world1 = []" by (simp add: world1_def)
  have h2: "\<exists>u \<in> set (docs world1). email u = email dto0"
    by (simp add: world1_def ann_def dto0_def)
  show ?thesis
    using h1 h2 registerUser_AlreadyExists [OF h1 h2, of fake_env 5 "''s2''" "''u2''"]
    by (simp add: world1_def)
qed

section \<open>Login\<close>

text \<open>
  C3. A login whose email matches no user and a login whose email matches a user but
  whose password the hasher rejects throw the same exception: the \<^verbatim>\<open>RpcException\<close>
  with status 400 and message \<^verbatim>\<open>User/Password not valid\<close>, and the same value is logged
  in both cases (the store answering the lookup in both).
\<close>

theorem loginUser_same_error:
  assumes "faults w1 = []" and "faults w2 = []"
      and "find (matches (ByEmail (email d1))) (docs w1) = None"
      and "find (matches (ByEmail (email d2))) (docs w2) = Some u"
      and "\<not> bcrypt_compareSync ev (password d2) (password u)"
  shows "fst (loginUser ev now1 d1 w1) = fst (loginUser ev now2 d2 w2)
         \<and> loginUser ev now1 d1 w1 =
             (Inl (RpcException 400 ''User/Password not valid''),
              w1\<lparr>logger := logger w1 @ [RpcException 400 ''User/Password not valid'']\<rparr>)
         \<and> loginUser ev now2 d2 w2 =
             (Inl (RpcException 400 ''User/Password not valid''),
              w2\<lparr>logger := logger w2 @ [RpcException 400 ''User/Password not valid'']\<rparr>)"
  using assms by (simp add: loginUser_def loginUser_try_def catchRethrow_def findOne_up)

theorem loginUser_same_error_witness:
  "fst (loginUser fake_env 2 \<lparr>email = ''b@x.com'', password = ''Secret123!''\<rparr> world1)
     = fst (loginUser fake_env 3 \<lparr>email = ''a@x.com'', password = ''Wrong456!''\<rparr> world1)
   \<and> fst (loginUser fake_env 3 \<lparr>email = ''a@x.com'', password = ''Wrong456!''\<rparr> world1)
     = Inl (RpcException 400 ''User/Password not valid'')"
proof -
  have h1: "faults world1 = []" by (simp add: world1_def)
  have h3: "find (matches (ByEmail (email \<lparr>email = ''b@x.com'', password = ''Secret123!''\<rparr>)))
              (docs world1) = None"
    by (simp add: world1_def ann_def)
  have h4: "find (matches (ByEmail (email \<lparr>email = ''a@x.com'', password = ''Wrong456!''\<rparr>)))
              (docs world1) = Some ann"
    by (simp add: world1_def ann_def)
  have h5: "\<not> bcrypt_compareSync fake_env
              (password \<lparr>email = ''a@x.com'', password = ''Wrong456!''\<rparr>) (password ann)"
    by (simp add: fake_env_def fake_compareSync_def ann_def)
  show ?thesis
    using loginUser_same_error [OF h1 h1 h3 h4 h5, of 2 3] by simp
qed

section \<open>What a successful registration or login has done\<close>

lemma registerUser_success:
  assumes "registerUser ev now salt oid dto w = (Inr r, w1)"
  shows "find (matches (ByEmail (email dto))) (docs w) = None
         \<and> docs w1 = docs w @ [\<lparr>email = email dto,
                                  password = bcrypt_hashSync ev (password dto) 10 salt,
                                  username = username dto, profile = profile dto, uid = oid\<rparr>]
         \<and> logger w1 = logger w
         \<and> r = RegisterUserResponse
                 \<lparr>email = email dto, password = bcrypt_hashSync ev (password dto) 10 salt,
                  username = username dto, profile = profile dto, uid = oid\<rparr>
                 (jwt_sign ev now (JwtPayload oid (email dto) (username dto)))
                 ''The user was created successfully''"
  using assms
  by (auto simp: registerUser_def catchRethrow_def registerUser_try_def findOne_def create_def
        storeCall_def signJWT_def Let_def
      split: prod.splits sum.splits option.splits list.splits)

lemma loginUser_success:
  assumes "loginUser ev now dto w = (Inr r, w1)"
  shows "\<exists>u. find (matches (ByEmail (email dto))) (docs w) = Some u
           \<and> bcrypt_compareSync ev (password dto) (password u)
           \<and> docs w1 = docs w \<and> logger w1 = logger w
           \<and> r = LoginUserResponse u (jwt_sign ev now (JwtPayload (uid u) (email u) (username u)))
                   ''The user logged in correctly''"
  using assms
  by (auto simp: loginUser_def catchRethrow_def loginUser_try_def findOne_def
        storeCall_def signJWT_def
      split: prod.splits sum.splits option.splits list.splits if_splits)

lemma find_append_new:
  "find P xs = None \<Longrightarrow> P x \<Longrightarrow> find P (xs @ [x]) = Some x"
  by (induction xs) (auto split: if_splits)

text \<open>
  C1. After a successful \<open>registerUser\<close>, a \<open>loginUser\<close> with the same email and
  password succeeds and returns the created document with a token signed over its
  \<^verbatim>\<open>_id\<close>, email and username, and \<open>verifyUser\<close> accepts that token. The collaborators
  are taken under their contracts: the store answers the lookup, the hasher's compare
  accepts a password against its own hash, and the token service verifies, under
  \<^verbatim>\<open>envs.jwtSecret\<close>, the token it has just signed.
\<close>

theorem register_then_login:
  assumes reg: "registerUser ev now0 salt oid dto w = (Inr r, w1)"
      and up: "faults w1 = []"
      and hash: "bcrypt_compareSync ev (password dto) (bcrypt_hashSync ev (password dto) 10 salt)"
      and tok: "jwt_verify ev (Some (jwtSecret ev)) now2
                  (jwt_sign ev now1 (JwtPayload oid (email dto) (username dto))) = Inr c"
  shows "loginUser ev now1 \<lparr>email = email dto, password = password dto\<rparr> w1 =
           (Inr (LoginUserResponse
                   \<lparr>email = email dto, password = bcrypt_hashSync ev (password dto) 10 salt,
                    username = username dto, profile = profile dto, uid = oid\<rparr>
                   (jwt_sign ev now1 (JwtPayload oid (email dto) (username dto)))
                   ''The user logged in correctly''), w1)
         \<and> verifyUser ev now2 (jwt_sign ev now1 (JwtPayload oid (email dto) (username dto))) w1 =
             (Inr (VerifyUserResponse (stripClaims c) (jwt_sign ev now2 (stripClaims c))
                     ''Successfully verified user''), w1)"
proof -
  let ?u = "\<lparr>email = email dto, password = bcrypt_hashSync ev (password dto) 10 salt,
             username = username dto, profile = profile dto, uid = oid\<rparr>"
  from registerUser_success [OF reg]
  have none: "find (matches (ByEmail (email dto))) (docs w) = None"
    and docs1: "docs w1 = docs w @ [?u]" by simp_all
  have "find (matches (ByEmail (email dto))) (docs w1) = Some ?u"
    unfolding docs1 by (rule find_append_new [OF none]) simp
  with up hash have login: "loginUser_try ev now1 \<lparr>email = email dto, password = password dto\<rparr> w1 =
      (Inr (LoginUserResponse ?u (jwt_sign ev now1 (JwtPayload oid (email dto) (username dto)))
              ''The user logged in correctly''), w1)"
    by (simp add: loginUser_try_def findOne_up signJWT_def)
  have verify: "verifyUser_try ev now2 (jwt_sign ev now1 (JwtPayload oid (email dto) (username dto))) w1 =
      (Inr (VerifyUserResponse (stripClaims c) (jwt_sign ev now2 (stripClaims c))
              ''Successfully verified user''), w1)"
    using tok by (simp add: verifyUser_try_def signJWT_def Let_def)
  from login verify show ?thesis
    by (simp add: loginUser_def verifyUser_def catchRethrow_def)
qed

theorem register_then_login_witness:
  "loginUser fake_env 2 \<lparr>email = email dto0, password = password dto0\<rparr> world1 =
     (Inr (LoginUserResponse
             \<lparr>email = email dto0, password = bcrypt_hashSync fake_env (password dto0) 10 ''s1'',
              username = username dto0, profile = profile dto0, uid = ''u1''\<rparr>
             (jwt_sign fake_env 2 (JwtPayload ''u1'' (email dto0) (username dto0)))
             ''The user logged in correctly''), world1)
   \<and> verifyUser fake_env 3 (jwt_sign fake_env 2 (JwtPayload ''u1'' (email dto0) (username dto0)))
       world1 =
       (Inr (VerifyUserResponse (stripClaims (JwtPayload ''u1'' ''a@x.com'' ''ann'' @ [(''iat'', ''II'')]))
               (jwt_sign fake_env 3
                  (stripClaims (JwtPayload ''u1'' ''a@x.com'' ''ann'' @ [(''iat'', ''II'')])))
               ''Successfully verified user''), world1)"
proof -
  have reg: "registerUser fake_env 1 ''s1'' ''u1'' dto0 world0 =
      (Inr (RegisterUserResponse ann ''k.id=u1;email=a@x.com;username=ann;iat=I;''
              ''The user was created successfully''), world1)"
    by code_simp
  have up: "faults world1 = []"
    by code_simp
  have hash: "bcrypt_compareSync fake_env (password dto0)
                (bcrypt_hashSync fake_env (password dto0) 10 ''s1'')"
    by code_simp
  have tok: "jwt_verify fake_env (Some (jwtSecret fake_env)) 3
               (jwt_sign fake_env 2 (JwtPayload ''u1'' (email dto0) (username dto0)))
             = Inr (JwtPayload ''u1'' ''a@x.com'' ''ann'' @ [(''iat'', ''II'')])"
    by code_simp
  show ?thesis
    by (rule register_then_login [OF reg up hash tok])
qed

text \<open>
  C10. The user object of a successful registration is the document just stored, and
  its password field is the hash that \<^verbatim>\<open>hashSync\<close> returned; the user object of a
  successful login is the stored document found by the email, whose password field is
  the stored hash the submitted password was compared against. Neither response drops
  the field.
\<close>

theorem responses_carry_hash:
  "(registerUser ev now salt oid dto w = (Inr r, w1) \<longrightarrow>
      (\<exists>d t m. r = RegisterUserResponse d t m \<and> last (docs w1) = d
               \<and> password d = bcrypt_hashSync ev (password dto) 10 salt))
   \<and> (loginUser ev now' ld w' = (Inr r', w1') \<longrightarrow>
      (\<exists>d t m. r' = LoginUserResponse d t m
               \<and> find (matches (ByEmail (email ld))) (docs w1') = Some d
               \<and> bcrypt_compareSync ev (password ld) (password d)))"
proof (intro conjI impI)
  assume "registerUser ev now salt oid dto w = (Inr r, w1)"
  from registerUser_success [OF this]
  show "\<exists>d t m. r = RegisterUserResponse d t m \<and> last (docs w1) = d
               \<and> password d = bcrypt_hashSync ev (password dto) 10 salt"
    by simp
next
  assume "loginUser ev now' ld w' = (Inr r', w1')"
  from loginUser_success [OF this]
  show "\<exists>d t m. r' = LoginUserResponse d t m
               \<and> find (matches (ByEmail (email ld))) (docs w1') = Some d
               \<and> bcrypt_compareSync ev (password ld) (password d)"
    by auto
qed


theorem responses_carry_hash_witness:
  "(\<exists>d t m. RegisterUserResponse ann ''k.id=u1;email=a@x.com;username=ann;iat=I;''
              ''The user was created successfully'' = RegisterUserResponse d t m
            \<and> last (docs world1) = d
            \<and> password d = bcrypt_hashSync fake_env (password dto0) 10 ''s1'')
   \<and> (\<exists>d t m. LoginUserResponse ann ''k.id=u1;email=a@x.com;username=ann;iat=II;''
                ''The user logged in correctly'' = LoginUserResponse d t m
            \<and> find (matches (ByEmail (email \<lparr>email = ''a@x.com'', password = ''Secret123!''\<rparr>)))
                 (docs world1) = Some d
            \<and> bcrypt_compareSync fake_env
                 (password \<lparr>email = ''a@x.com'', password = ''Secret123!''\<rparr>) (password d))"
proof -
  have reg: "registerUser fake_env 1 ''s1'' ''u1'' dto0 world0 =
      (Inr (RegisterUserResponse ann ''k.id=u1;email=a@x.com;username=ann;iat=I;''
              ''The user was created successfully''), world1)"
    by code_simp
  have login: "loginUser fake_env 2 \<lparr>email = ''a@x.com'', password = ''Secret123!''\<rparr> world1 =
      (Inr (LoginUserResponse ann ''k.id=u1;email=a@x.com;username=ann;iat=II;''
              ''The user logged in correctly''), world1)"
    by code_simp
  from responses_carry_hash [of fake_env 1 "''s1''" "''u1''" dto0 world0
         "RegisterUserResponse ann ''k.id=u1;email=a@x.com;username=ann;iat=I;''
              ''The user was created successfully''" world1
         2 "\<lparr>email = ''a@x.com'', password = ''Secret123!''\<rparr>" world1
         "LoginUserResponse ann ''k.id=u1;email=a@x.com;username=ann;iat=II;''
              ''The user logged in correctly''" world1]
  show ?thesis
    using reg login by blast
qed

section \<open>Token verification\<close>




section \<open>Password change\<close>

text \<open>
  C6. \<open>changePassword\<close> checks in this order. A token the service does not verify
  makes it throw status 400 with the verifier's message, before any call to the store
  and whatever the passwords are. With a verified token and no user under the decoded
  username it throws status 400 \<^verbatim>\<open>User not valid\<close>, whatever the passwords are. With a
  user found and an old password the hasher rejects against the stored hash it throws
  status 400 \<^verbatim>\<open>Password not valid\<close>. In the three cases the world afterwards is the
  world before with one more entry in the log: no document has changed.
\<close>

theorem changePassword_failures:
  "(jwt_verify ev None now token = Inl m \<longrightarrow>
      changePassword ev now salt (ChangePasswordDto token pw newPassword repeatNewPassword) w =
        (Inl (RpcException 400 m), w\<lparr>logger := logger w @ [Error m]\<rparr>))
   \<and> (jwt_verify ev None now token = Inr decoded \<and> faults w = []
       \<and> find (matches (ByUsername (map_of decoded ''username''))) (docs w) = None \<longrightarrow>
      changePassword ev now salt (ChangePasswordDto token pw newPassword repeatNewPassword) w =
        (Inl (RpcException 400 ''User not valid''),
         w\<lparr>logger := logger w @ [RpcException 400 ''User not valid'']\<rparr>))
   \<and> (jwt_verify ev None now token = Inr decoded \<and> faults w = []
       \<and> find (matches (ByUsername (map_of decoded ''username''))) (docs w) = Some u
       \<and> \<not> bcrypt_compareSync ev pw (password u) \<longrightarrow>
      changePassword ev now salt (ChangePasswordDto token pw newPassword repeatNewPassword) w =
        (Inl (RpcException 400 ''Password not valid''),
         w\<lparr>logger := logger w @ [RpcException 400 ''Password not valid'']\<rparr>))"
proof (intro conjI impI)
  assume "jwt_verify ev None now token = Inl m"
  then have "changePassword_try ev now salt
               (ChangePasswordDto token pw newPassword repeatNewPassword) w = (Inl (Error m), w)"
    by simp
  then show "changePassword ev now salt
               (ChangePasswordDto token pw newPassword repeatNewPassword) w =
             (Inl (RpcException 400 m), w\<lparr>logger := logger w @ [Error m]\<rparr>)"
    by (simp add: changePassword_def catchRethrow_def)
next
  assume "jwt_verify ev None now token = Inr decoded \<and> faults w = []
          \<and> find (matches (ByUsername (map_of decoded ''username''))) (docs w) = None"
  then have "changePassword_try ev now salt
               (ChangePasswordDto token pw newPassword repeatNewPassword) w =
             (Inl (RpcException 400 ''User not valid''), w)"
    by (simp add: findOne_up)
  then show "changePassword ev now salt
               (ChangePasswordDto token pw newPassword repeatNewPassword) w =
             (Inl (RpcException 400 ''User not valid''),
              w\<lparr>logger := logger w @ [RpcException 400 ''User not valid'']\<rparr>)"
    by (simp add: changePassword_def catchRethrow_def)
next
  assume "jwt_verify ev None now token = Inr decoded \<and> faults w = []
          \<and> find (matches (ByUsername (map_of decoded ''username''))) (docs w) = Some u
          \<and> \<not> bcrypt_compareSync ev pw (password u)"
  then have "changePassword_try ev now salt
               (ChangePasswordDto token pw newPassword repeatNewPassword) w =
             (Inl (RpcException 400 ''Password not valid''), w)"
    by (simp add: findOne_up)
  then show "changePassword ev now salt
               (ChangePasswordDto token pw newPassword repeatNewPassword) w =
             (Inl (RpcException 400 ''Password not valid''),
              w\<lparr>logger := logger w @ [RpcException 400 ''Password not valid'']\<rparr>)"
    by (simp add: changePassword_def catchRethrow_def)
qed

theorem changePassword_failures_witness:
  "changePassword fake_env 3 ''s2''
     (ChangePasswordDto ''forged'' ''Secret123!'' ''Hunter2!'' ''Hunter2!'') world1 =
     (Inl (RpcException 400 ''invalid signature''),
      world1\<lparr>logger := logger world1 @ [Error ''invalid signature'']\<rparr>)
   \<and> changePassword fake_env 3 ''s2''
       (ChangePasswordDto bobToken ''Secret123!'' ''Hunter2!'' ''Hunter2!'') world1 =
       (Inl (RpcException 400 ''User not valid''),
        world1\<lparr>logger := logger world1 @ [RpcException 400 ''User not valid'']\<rparr>)
   \<and> changePassword fake_env 3 ''s2''
       (ChangePasswordDto annToken ''Wrong456!'' ''Hunter2!'' ''Hunter2!'') world1 =
       (Inl (RpcException 400 ''Password not valid''),
        world1\<lparr>logger := logger world1 @ [RpcException 400 ''Password not valid'']\<rparr>)"
proof -
  have up: "faults world1 = []"
    by code_simp
  have t1: "jwt_verify fake_env None 3 ''forged'' = Inl ''invalid signature''"
    by code_simp
  have t2: "jwt_verify fake_env None 3 bobToken =
              Inr (JwtPayload ''u7'' ''b@x.com'' ''bob'' @ [(''iat'', ''II'')])"
    by code_simp
  have n2: "find (matches (ByUsername
              (map_of (JwtPayload ''u7'' ''b@x.com'' ''bob'' @ [(''iat'', ''II'')]) ''username'')))
              (docs world1) = None"
    by code_simp
  have t3: "jwt_verify fake_env None 3 annToken =
              Inr (JwtPayload ''u1'' ''a@x.com'' ''ann'' @ [(''iat'', ''II'')])"
    by code_simp
  have f3: "find (matches (ByUsername
              (map_of (JwtPayload ''u1'' ''a@x.com'' ''ann'' @ [(''iat'', ''II'')]) ''username'')))
              (docs world1) = Some ann"
    by code_simp
  have p3: "\<not> bcrypt_compareSync fake_env ''Wrong456!'' (password ann)"
    by code_simp
  from changePassword_failures [of fake_env 3 "''forged''" "''invalid signature''" "''s2''"
         "''Secret123!''" "''Hunter2!''" "''Hunter2!''" world1] t1
  have c1: "changePassword fake_env 3 ''s2''
     (ChangePasswordDto ''forged'' ''Secret123!'' ''Hunter2!'' ''Hunter2!'') world1 =
     (Inl (RpcException 400 ''invalid signature''),
      world1\<lparr>logger := logger world1 @ [Error ''invalid signature'']\<rparr>)"
    by blast
  from changePassword_failures [of fake_env 3 bobToken _ "''s2''"
         "''Secret123!''" "''Hunter2!''" "''Hunter2!''" world1
         "JwtPayload ''u7'' ''b@x.com'' ''bob'' @ [(''iat'', ''II'')]"] t2 up n2
  have c2: "changePassword fake_env 3 ''s2''
       (ChangePasswordDto bobToken ''Secret123!'' ''Hunter2!'' ''Hunter2!'') world1 =
       (Inl (RpcException 400 ''User not valid''),
        world1\<lparr>logger := logger world1 @ [RpcException 400 ''User not valid'']\<rparr>)"
    by blast
  from changePassword_failures [of fake_env 3 annToken _ "''s2''"
         "''Wrong456!''" "''Hunter2!''" "''Hunter2!''" world1
         "JwtPayload ''u1'' ''a@x.com'' ''ann'' @ [(''iat'', ''II'')]" ann] t3 up f3 p3
  have c3: "changePassword fake_env 3 ''s2''
       (ChangePasswordDto annToken ''Wrong456!'' ''Hunter2!'' ''Hunter2!'') world1 =
       (Inl (RpcException 400 ''Password not valid''),
        world1\<lparr>logger := logger world1 @ [RpcException 400 ''Password not valid'']\<rparr>)"
    by blast
  from c1 c2 c3 show ?thesis by blast
qed

text \<open>
  A successful change of password, on every input. In a store that answers and whose
  ids are unique, let the token verify and \<open>u\<close> be the user found under the decoded
  username, with an old password the hasher accepts against the stored hash. Then
  \<open>changePassword\<close> succeeds and the store holds \<open>u\<close> with its password replaced by
  the hash of the new password, but the record in the response is \<open>u\<close> itself, as it
  was before the update. With unique emails, a later login with the old password
  fails when the hasher rejects it against the new hash, and a later login with the
  new password succeeds when the hasher accepts it against its own hash.
\<close>

lemma changePassword_effect:
  assumes up: "faults w = []"
      and ids: "distinct (map uid (docs w))"
      and tok: "jwt_verify ev None now token = Inr decoded"
      and usr: "find (matches (ByUsername (map_of decoded ''username''))) (docs w) = Some u"
      and old: "bcrypt_compareSync ev oldPassword (password u)"
      and w': "w' = w\<lparr>docs := updateFirst (matches (ById (uid u)))
                                 (applyUpdate [(''password'', bcrypt_hashSync ev newPassword 10 salt)])
                                 (docs w)\<rparr>"
      and u': "u' = u\<lparr>password := bcrypt_hashSync ev newPassword 10 salt\<rparr>"
  shows "changePassword ev now salt
           (ChangePasswordDto token oldPassword newPassword repeatNewPassword) w =
           (Inr (ChangePasswordResponse (Some u) ''Password changed successfully''), w')
         \<and> find (matches (ById (uid u))) (docs w') = Some u'
         \<and> (distinct (map email (docs w))
              \<and> \<not> bcrypt_compareSync ev oldPassword (bcrypt_hashSync ev newPassword 10 salt) \<longrightarrow>
             loginUser ev now1 \<lparr>email = email u, password = oldPassword\<rparr> w' =
               (Inl (RpcException 400 ''User/Password not valid''),
                w'\<lparr>logger := logger w' @ [RpcException 400 ''User/Password not valid'']\<rparr>))
         \<and> (distinct (map email (docs w))
              \<and> bcrypt_compareSync ev newPassword (bcrypt_hashSync ev newPassword 10 salt) \<longrightarrow>
             loginUser ev now2 \<lparr>email = email u, password = newPassword\<rparr> w' =
               (Inr (LoginUserResponse u'
                       (jwt_sign ev now2 (JwtPayload (uid u) (email u) (username u)))
                       ''The user logged in correctly''), w'))"
proof -
  let ?h = "bcrypt_hashSync ev newPassword 10 salt"
  from find_in_set [OF usr] have mem: "u \<in> set (docs w)" by simp
  have byid: "find (matches (ById (uid u))) (docs w) = Some u"
    by (rule find_by_uid [OF ids mem])
  have upd: "applyUpdate [(''password'', ?h)] u = u'"
    by (simp add: applyUpdate_password u')
  have change: "changePassword ev now salt
                 (ChangePasswordDto token oldPassword newPassword repeatNewPassword) w =
                 (Inr (ChangePasswordResponse (Some u) ''Password changed successfully''), w')"
    using up tok usr old byid
    by (simp add: changePassword_def catchRethrow_def findOne_up findOneAndUpdate_up w')
  have stored: "find (matches (ById (uid u))) (docs w') = Some u'"
    using find_updateFirst [OF byid, of "applyUpdate [(''password'', ?h)]"]
    by (simp add: w' upd u')
  have up': "faults w' = []" by (simp add: w' up)
  have byemail: "find (matches (ByEmail (email u))) (docs w') = Some u'"
    if emails: "distinct (map email (docs w))"
  proof -
    have "find (matches (ByEmail (email u))) (docs w') = Some (applyUpdate [(''password'', ?h)] u)"
      unfolding w' using find_email_after_update [OF ids emails mem]
      by (simp add: applyUpdate_password)
    then show ?thesis by (simp add: upd)
  qed
  have loginOld: "loginUser ev now1 \<lparr>email = email u, password = oldPassword\<rparr> w' =
             (Inl (RpcException 400 ''User/Password not valid''),
              w'\<lparr>logger := logger w' @ [RpcException 400 ''User/Password not valid'']\<rparr>)"
    if "distinct (map email (docs w)) \<and> \<not> bcrypt_compareSync ev oldPassword ?h"
    using byemail that up'
    by (simp add: loginUser_def loginUser_try_def catchRethrow_def findOne_up u')
  have loginNew: "loginUser ev now2 \<lparr>email = email u, password = newPassword\<rparr> w' =
             (Inr (LoginUserResponse u' (jwt_sign ev now2 (JwtPayload (uid u) (email u) (username u)))
                     ''The user logged in correctly''), w')"
    if "distinct (map email (docs w)) \<and> bcrypt_compareSync ev newPassword ?h"
    using byemail that up'
    by (simp add: loginUser_def loginUser_try_def catchRethrow_def findOne_up u' signJWT_def)
  from change stored loginOld loginNew show ?thesis by blast
qed

text \<open>
  C5. On a change from \<^verbatim>\<open>Secret123!\<close> to \<^verbatim>\<open>Hunter2!\<close> everything the claim says
  holds but the record returned: the change succeeds, the stored hash is the hash of
  the new password, a login with the old password fails and one with the new password
  succeeds, and the response carries the document with the old hash, not the updated
  record.
\<close>

theorem changePassword_returns_previous_record:
  "changePassword fake_env 3 ''s2''
     (ChangePasswordDto annToken ''Secret123!'' ''Hunter2!'' ''Hunter2!'') world1 =
     (Inr (ChangePasswordResponse (Some ann) ''Password changed successfully''), world3)
   \<and> find (matches (ById ''u1'')) (docs world3) = Some (ann\<lparr>password := ''$2b$s2$!2retnuH''\<rparr>)
   \<and> password ann = ''$2b$s1$!321terceS''
   \<and> ann \<noteq> ann\<lparr>password := ''$2b$s2$!2retnuH''\<rparr>
   \<and> loginUser fake_env 4 \<lparr>email = ''a@x.com'', password = ''Secret123!''\<rparr> world3 =
       (Inl (RpcException 400 ''User/Password not valid''),
        world3\<lparr>logger := [RpcException 400 ''User/Password not valid'']\<rparr>)
   \<and> loginUser fake_env 5 \<lparr>email = ''a@x.com'', password = ''Hunter2!''\<rparr> world3 =
       (Inr (LoginUserResponse (ann\<lparr>password := ''$2b$s2$!2retnuH''\<rparr>)
               (jwt_sign fake_env 5 (JwtPayload ''u1'' ''a@x.com'' ''ann''))
               ''The user logged in correctly''), world3)"
  by code_simp

section \<open>Profile update\<close>

text \<open>
  C9. In a store that answers, \<open>updateUser\<close> on the id of a stored user returns the
  request itself as \<^verbatim>\<open>data\<close> and writes the submitted fields to that document: under
  that id the store then holds a document with the same \<^verbatim>\<open>_id\<close> in which email,
  username, password and every profile field have the value submitted last under that
  name, or the value they had when none was submitted, and the documents under other
  ids are as before. On an id that no document has, it throws status 400
  \<^verbatim>\<open>User's information could not be updated\<close> and the world, documents included, is as
  before.
\<close>

theorem updateUser_result:
  assumes "faults w = []"
  shows "(find (matches (ById i)) (docs w) = Some u \<longrightarrow>
            updateUser (UpdateUserDto i flds) w =
              (Inr (UpdateUserResponse (UpdateUserDto i flds)
                      ''User information updated correctly''),
               w\<lparr>docs := updateFirst (matches (ById i)) (applyUpdate flds) (docs w)\<rparr>)
            \<and> find (matches (ById i))
                 (updateFirst (matches (ById i)) (applyUpdate flds) (docs w))
                = Some (applyUpdate flds u)
            \<and> uid (applyUpdate flds u) = uid u
            \<and> email (applyUpdate flds u) =
                (case map_of (rev flds) ''email'' of None \<Rightarrow> email u | Some v \<Rightarrow> v)
            \<and> username (applyUpdate flds u) =
                (case map_of (rev flds) ''username'' of None \<Rightarrow> username u | Some v \<Rightarrow> v)
            \<and> password (applyUpdate flds u) =
                (case map_of (rev flds) ''password'' of None \<Rightarrow> password u | Some v \<Rightarrow> v)
            \<and> (k \<notin> {''email'', ''username'', ''password''} \<longrightarrow>
                 map_of (profile (applyUpdate flds u)) k =
                   (case map_of (rev flds) k of None \<Rightarrow> map_of (profile u) k | Some v \<Rightarrow> Some v))
            \<and> (j \<noteq> i \<longrightarrow>
                 find (matches (ById j))
                   (updateFirst (matches (ById i)) (applyUpdate flds) (docs w))
                 = find (matches (ById j)) (docs w)))
         \<and> (find (matches (ById i)) (docs w) = None \<longrightarrow>
            updateUser (UpdateUserDto i flds) w =
              (Inl (RpcException 400 ''User's information could not be updated''), w))"
proof (intro conjI impI)
  assume f: "find (matches (ById i)) (docs w) = Some u"
  with assms show "updateUser (UpdateUserDto i flds) w =
              (Inr (UpdateUserResponse (UpdateUserDto i flds)
                      ''User information updated correctly''),
               w\<lparr>docs := updateFirst (matches (ById i)) (applyUpdate flds) (docs w)\<rparr>)"
    by (simp add: findOneAndUpdate_up)
  from find_in_set [OF f] have "matches (ById i) (applyUpdate flds u)"
    by (simp add: uid_applyUpdate)
  with f show "find (matches (ById i))
                 (updateFirst (matches (ById i)) (applyUpdate flds) (docs w))
                = Some (applyUpdate flds u)"
    by (rule find_updateFirst)
next
  show "uid (applyUpdate flds u) = uid u"
    by (rule uid_applyUpdate)
next
  show "email (applyUpdate flds u) =
          (case map_of (rev flds) ''email'' of None \<Rightarrow> email u | Some v \<Rightarrow> v)"
    by (rule applyUpdate_email)
next
  show "username (applyUpdate flds u) =
          (case map_of (rev flds) ''username'' of None \<Rightarrow> username u | Some v \<Rightarrow> v)"
    by (rule applyUpdate_username)
next
  show "password (applyUpdate flds u) =
          (case map_of (rev flds) ''password'' of None \<Rightarrow> password u | Some v \<Rightarrow> v)"
    by (rule applyUpdate_password_field)
next
  assume "k \<notin> {''email'', ''username'', ''password''}"
  then show "map_of (profile (applyUpdate flds u)) k =
          (case map_of (rev flds) k of None \<Rightarrow> map_of (profile u) k | Some v \<Rightarrow> Some v)"
    by (rule applyUpdate_profile)
next
  assume "j \<noteq> i"
  then show "find (matches (ById j))
               (updateFirst (matches (ById i)) (applyUpdate flds) (docs w))
             = find (matches (ById j)) (docs w)"
    by (rule find_other_uid) (rule uid_applyUpdate)
next
  assume "find (matches (ById i)) (docs w) = None"
  with assms show "updateUser (UpdateUserDto i flds) w =
              (Inl (RpcException 400 ''User's information could not be updated''), w)"
    by (simp add: findOneAndUpdate_up updateFirst_no_match)
qed

theorem updateUser_result_witness:
  "(updateUser (UpdateUserDto ''u1'' [(''username'', ''anna''), (''city'', ''Oslo'')]) world1 =
      (Inr (UpdateUserResponse (UpdateUserDto ''u1'' [(''username'', ''anna''), (''city'', ''Oslo'')])
              ''User information updated correctly''),
       world1\<lparr>docs := [\<lparr>email = ''a@x.com'', password = ''$2b$s1$!321terceS'',
                          username = ''anna'', profile = [(''city'', ''Oslo'')], uid = ''u1''\<rparr>]\<rparr>)
    \<and> find (matches (ById ''u1''))
         (updateFirst (matches (ById ''u1''))
            (applyUpdate [(''username'', ''anna''), (''city'', ''Oslo'')]) (docs world1))
        = Some \<lparr>email = ''a@x.com'', password = ''$2b$s1$!321terceS'',
                username = ''anna'', profile = [(''city'', ''Oslo'')], uid = ''u1''\<rparr>
    \<and> username (applyUpdate [(''username'', ''anna''), (''city'', ''Oslo'')] ann) = ''anna''
    \<and> email (applyUpdate [(''username'', ''anna''), (''city'', ''Oslo'')] ann) = ''a@x.com''
    \<and> password (applyUpdate [(''username'', ''anna''), (''city'', ''Oslo'')] ann)
        = ''$2b$s1$!321terceS''
    \<and> map_of (profile (applyUpdate [(''username'', ''anna''), (''city'', ''Oslo'')] ann)) ''city''
        = Some ''Oslo'')
   \<and> updateUser (UpdateUserDto ''u9'' [(''username'', ''anna'')]) world1 =
       (Inl (RpcException 400 ''User's information could not be updated''), world1)"
proof -
  have up: "faults world1 = []"
    by code_simp
  have f1: "find (matches (ById ''u1'')) (docs world1) = Some ann"
    by code_simp
  have f2: "find (matches (ById ''u9'')) (docs world1) = None"
    by code_simp
  have stored: "updateFirst (matches (ById ''u1''))
                  (applyUpdate [(''username'', ''anna''), (''city'', ''Oslo'')]) (docs world1)
                = [\<lparr>email = ''a@x.com'', password = ''$2b$s1$!321terceS'',
                     username = ''anna'', profile = [(''city'', ''Oslo'')], uid = ''u1''\<rparr>]"
    by code_simp
  have doc: "applyUpdate [(''username'', ''anna''), (''city'', ''Oslo'')] ann
             = \<lparr>email = ''a@x.com'', password = ''$2b$s1$!321terceS'',
                 username = ''anna'', profile = [(''city'', ''Oslo'')], uid = ''u1''\<rparr>"
    by code_simp
  have key: "''city'' \<notin> {''email'', ''username'', ''password''}"
    by simp
  from updateUser_result [OF up, of "''u1''" ann "[(''username'', ''anna''), (''city'', ''Oslo'')]"
         "''city''" "''u9''"] f1 key
  have c1: "updateUser (UpdateUserDto ''u1'' [(''username'', ''anna''), (''city'', ''Oslo'')]) world1 =
      (Inr (UpdateUserResponse (UpdateUserDto ''u1'' [(''username'', ''anna''), (''city'', ''Oslo'')])
              ''User information updated correctly''),
       world1\<lparr>docs := updateFirst (matches (ById ''u1''))
                          (applyUpdate [(''username'', ''anna''), (''city'', ''Oslo'')])
                          (docs world1)\<rparr>)"
    and c2: "find (matches (ById ''u1''))
         (updateFirst (matches (ById ''u1''))
            (applyUpdate [(''username'', ''anna''), (''city'', ''Oslo'')]) (docs world1))
        = Some (applyUpdate [(''username'', ''anna''), (''city'', ''Oslo'')] ann)"
    and c3: "username (applyUpdate [(''username'', ''anna''), (''city'', ''Oslo'')] ann) =
        (case map_of (rev [(''username'', ''anna''), (''city'', ''Oslo'')]) ''username'' of
           None \<Rightarrow> username ann | Some v \<Rightarrow> v)"
    and c4: "email (applyUpdate [(''username'', ''anna''), (''city'', ''Oslo'')] ann) =
        (case map_of (rev [(''username'', ''anna''), (''city'', ''Oslo'')]) ''email'' of
           None \<Rightarrow> email ann | Some v \<Rightarrow> v)"
    and c5: "password (applyUpdate [(''username'', ''anna''), (''city'', ''Oslo'')] ann) =
        (case map_of (rev [(''username'', ''anna''), (''city'', ''Oslo'')]) ''password'' of
           None \<Rightarrow> password ann | Some v \<Rightarrow> v)"
    and c6: "map_of (profile (applyUpdate [(''username'', ''anna''), (''city'', ''Oslo'')] ann)) ''city'' =
        (case map_of (rev [(''username'', ''anna''), (''city'', ''Oslo'')]) ''city'' of
           None \<Rightarrow> map_of (profile ann) ''city'' | Some v \<Rightarrow> Some v)"
    by blast+
  from updateUser_result [OF up, of "''u9''" _ "[(''username'', ''anna'')]"] f2
  have c7: "updateUser (UpdateUserDto ''u9'' [(''username'', ''anna'')]) world1 =
       (Inl (RpcException 400 ''User's information could not be updated''), world1)"
    by blast
  have e3: "username (applyUpdate [(''username'', ''anna''), (''city'', ''Oslo'')] ann) = ''anna''"
    using c3 by simp
  have e4: "email (applyUpdate [(''username'', ''anna''), (''city'', ''Oslo'')] ann) = ''a@x.com''"
    using c4 by (simp add: ann_def)
  have e5: "password (applyUpdate [(''username'', ''anna''), (''city'', ''Oslo'')] ann)
              = ''$2b$s1$!321terceS''"
    using c5 by (simp add: ann_def)
  have e6: "map_of (profile (applyUpdate [(''username'', ''anna''), (''city'', ''Oslo'')] ann)) ''city''
              = Some ''Oslo''"
    using c6 by simp
  from c1 c2 c7 e3 e4 e5 e6 show ?thesis
    by (simp only: stored doc)
qed

section \<open>Stored passwords\<close>

text \<open>
  Registration, login, verification and password change keep every stored password
  among the outputs of the hasher: whatever property \<open>H\<close> all hashes have, the stored
  passwords have it afterwards if they had it before.
\<close>

lemma hashed_kept:
  assumes hasher: "\<forall>pw s. H (bcrypt_hashSync ev pw 10 s)"
      and inv: "\<forall>u \<in> set (docs w). H (password u)"
      and run: "registerUser ev now salt oid rdto w = (r, w')
                \<or> loginUser ev now ldto w = (r, w')
                \<or> verifyUser ev now token w = (r, w')
                \<or> changePassword ev now salt cdto w = (r, w')"
  shows "\<forall>u \<in> set (docs w'). H (password u)"
proof -
  have pw: "\<forall>u \<in> set (docs w).
              H (password (applyUpdate [(''password'', bcrypt_hashSync ev p 10 salt)] u))" for p
    using hasher by (simp add: applyUpdate_password)
  have reg: "registerUser_try ev now salt oid rdto w = (r0, w0) \<Longrightarrow> \<forall>u \<in> set (docs w0). H (password u)" for r0 w0
    using hasher inv
    by (auto simp: registerUser_try_def split: prod.splits sum.splits option.splits
        dest!: findOne_keeps create_keeps)
  have login: "loginUser_try ev now ldto w = (r0, w0) \<Longrightarrow> docs w0 = docs w" for r0 w0
    by (auto simp: loginUser_try_def split: prod.splits sum.splits option.splits if_splits
        dest!: findOne_keeps)
  have verify: "verifyUser_try ev now token w = (r0, w0) \<Longrightarrow> docs w0 = docs w" for r0 w0
    by (auto simp: verifyUser_try_def Let_def split: sum.splits)
  have change: "changePassword_try ev now salt cdto w = (r0, w0) \<Longrightarrow> \<forall>u \<in> set (docs w0). H (password u)" for r0 w0
    using inv updateFirst_pred [OF inv pw]
    by (cases cdto)
       (auto split: prod.splits sum.splits option.splits if_splits
        dest!: findOne_keeps findOneAndUpdate_keeps)
  from run show ?thesis
    unfolding registerUser_def loginUser_def verifyUser_def changePassword_def
    using inv by (auto dest!: catchRethrow_docs reg login verify change)
qed

text \<open>
  C7. \<open>updateUser\<close> does not keep it: a request whose fields include \<^verbatim>\<open>password\<close>
  overwrites the stored hash with the submitted text.
\<close>

theorem updateUser_stores_plaintext:
  "updateUser (UpdateUserDto ''u1'' [(''password'', ''Hunter2!'')]) world1 =
     (Inr (UpdateUserResponse (UpdateUserDto ''u1'' [(''password'', ''Hunter2!'')])
             ''User information updated correctly''),
      world1\<lparr>docs := [ann\<lparr>password := ''Hunter2!''\<rparr>]\<rparr>)"
  by code_simp

section \<open>Failures\<close>

text \<open>
  The four operations with a \<^verbatim>\<open>catch\<close> clause fail only with an \<^verbatim>\<open>RpcException\<close> of
  status 400 carrying the message of the error caught, which has been logged.
\<close>

lemma registerUser_try_logger: "registerUser_try ev now salt oid dto w = (r, w') \<Longrightarrow> logger w' = logger w"
  by (auto simp: registerUser_try_def split: prod.splits sum.splits option.splits
      dest!: findOne_keeps create_keeps)

lemma loginUser_try_logger: "loginUser_try ev now dto w = (r, w') \<Longrightarrow> logger w' = logger w"
  by (auto simp: loginUser_try_def split: prod.splits sum.splits option.splits if_splits
      dest!: findOne_keeps)

lemma verifyUser_try_logger: "verifyUser_try ev now token w = (r, w') \<Longrightarrow> logger w' = logger w"
  by (auto simp: verifyUser_try_def Let_def split: sum.splits)

lemma changePassword_try_logger: "changePassword_try ev now salt dto w = (r, w') \<Longrightarrow> logger w' = logger w"
  by (cases dto)
     (auto split: prod.splits sum.splits option.splits if_splits
      dest!: findOne_keeps findOneAndUpdate_keeps)

lemma wrapped_failures:
  assumes "registerUser ev now salt oid rdto w = (Inl e, w')
           \<or> loginUser ev now ldto w = (Inl e, w')
           \<or> verifyUser ev now token w = (Inl e, w')
           \<or> changePassword ev now salt cdto w = (Inl e, w')"
  shows "\<exists>e0. e = RpcException 400 (message e0) \<and> logger w' = logger w @ [e0]"
  using assms
  unfolding registerUser_def loginUser_def verifyUser_def changePassword_def
  by (auto dest!: catchRethrow_Inl registerUser_try_logger loginUser_try_logger
        verifyUser_try_logger changePassword_try_logger)

text \<open>
  C8. \<open>updateUser\<close> is outside that pattern: an error of the store leaves it as thrown,
  not as an \<^verbatim>\<open>RpcException\<close> with status 400, and neither that error nor the status-400
  exception for an unknown id reaches the log.
\<close>

theorem updateUser_failures_unwrapped:
  "updateUser (UpdateUserDto ''u1'' [(''username'', ''anna'')])
     (world1\<lparr>faults := [Some ''connection refused'']\<rparr>) =
     (Inl (Error ''connection refused''), world1)
   \<and> updateUser (UpdateUserDto ''u9'' [(''username'', ''anna'')]) world1 =
       (Inl (RpcException 400 ''User's information could not be updated''), world1)
   \<and> logger world1 = []"
  by code_simp

end
